theory Spec2Isabelle
  imports Main "HOL-Library.Word"
begin

section \<open>Data model of the cloud storage application\<close>

text \<open>
  The application keeps two MongoDB collections, \<open>users\<close> and \<open>image_hashes\<close>.
  A collection is a list of documents in insertion order: \<open>find_one\<close>, \<open>update_one\<close>
  and \<open>delete_one\<close> act on the first document that matches the filter, and
  \<open>insert_one\<close> appends. No unique index is declared by the program, so a collection
  may hold several documents with the same key.

  Python strings are lists of code points; the model keeps the code points below 256
  (one \<open>char\<close> each). Byte buffers are lists of 8-bit words.
\<close>

type_synonym bytes = "8 word list"

text \<open>The dictionary \<open>{"filename": .., "url": .., "hash": ..}\<close> stored in a ledger.\<close>

record upload_record =
  filename :: string
  url :: string
  hash :: string

text \<open>
  A document of the \<open>users\<close> collection. The field \<open>uploads\<close> may be absent from a
  document (the program tests \<open>"uploads" not in user\<close>), hence the option.
\<close>

record user_doc =
  username :: string
  password_hash :: string
  uploads :: "upload_record list option"

text \<open>A document of the \<open>image_hashes\<close> collection.\<close>

record hash_doc =
  h_hash :: string
  h_filename :: string
  h_url :: string
  h_uploaded_by :: string

datatype backend = FirebaseStorage | CloudinaryStorage

text \<open>
  The calls the program makes into libraries and services outside the database, in
  the order it makes them: \<open>hashlib.sha256\<close>, \<open>hashlib.md5\<close>, the image normaliser
  \<open>compress_and_reformat\<close>, \<open>StorageBackend.save\<close> and \<open>requests.get\<close>.
\<close>

datatype call =
  HashPassword string
  | CalculateHash bytes
  | CompressAndReformat bytes
  | BackendSave backend string bytes
  | RequestsGet string

record state =
  users :: "user_doc list"
  image_hashes :: "hash_doc list"
  calls :: "call list"

definition record_call :: "call \<Rightarrow> state \<Rightarrow> state" where
  "record_call c s = s\<lparr>calls := calls s @ [c]\<rparr>"

definition new_calls :: "state \<Rightarrow> state \<Rightarrow> call list" where
  "new_calls s s' = drop (length (calls s)) (calls s')"

text \<open>
  A decoded image, as far as the program looks at it: \<open>img.size\<close> is
  \<open>(img_width, img_height)\<close>.
\<close>

record image =
  img_width :: nat
  img_height :: nat
  img_data :: bytes

text \<open>
  The pure library functions the program calls. \<open>image_open\<close> is \<open>Image.open\<close>
  (\<open>None\<close> when it raises); \<open>convert_save\<close> is \<open>img.convert("RGB")\<close> followed by
  \<open>img.save(buffer, "JPEG", quality=q)\<close> (\<open>None\<close> when either raises).
\<close>

record lib =
  md5_hexdigest :: "bytes \<Rightarrow> string"
  sha256_hexdigest :: "string \<Rightarrow> string"
  image_open :: "bytes \<Rightarrow> image option"
  convert_save :: "image \<Rightarrow> nat \<Rightarrow> bytes option"

text \<open>
  What the network answers during one operation. \<open>backend_save b name data\<close> is
  \<open>Inr url\<close> when \<open>save\<close> returns and \<open>Inl msg\<close> when it raises an exception whose
  text is \<open>msg\<close>. \<open>requests_get u\<close> is the status code of the response, or
  \<open>RequestException\<close> when \<open>requests.get\<close> raises.
\<close>

datatype response = StatusCode int | RequestException

record net =
  backend_save :: "backend \<Rightarrow> string \<Rightarrow> bytes \<Rightarrow> string + string"
  requests_get :: "string \<Rightarrow> response"

section \<open>String helpers of the Python library\<close>

text \<open>\<open>str.isalnum\<close> on the code points below 256: letters, digits and numeric characters.\<close>

definition isalnum_char :: "char \<Rightarrow> bool" where
  "isalnum_char c =
     (let n = (of_char c :: nat)
      in (48 \<le> n \<and> n \<le> 57) \<or> (65 \<le> n \<and> n \<le> 90) \<or> (97 \<le> n \<and> n \<le> 122)
         \<or> n = 170 \<or> n = 178 \<or> n = 179 \<or> n = 181 \<or> n = 185 \<or> n = 186
         \<or> (188 \<le> n \<and> n \<le> 190)
         \<or> (192 \<le> n \<and> n \<le> 214) \<or> (216 \<le> n \<and> n \<le> 246) \<or> 248 \<le> n)"

text \<open>\<open>s.isalnum()\<close>: every character is alphanumeric and there is at least one.\<close>

definition isalnum :: "string \<Rightarrow> bool" where
  "isalnum s = (s \<noteq> [] \<and> list_all isalnum_char s)"

text \<open>\<open>str.lower\<close> on the code points below 256.\<close>

definition lower_char :: "char \<Rightarrow> char" where
  "lower_char c =
     (let n = (of_char c :: nat)
      in if (65 \<le> n \<and> n \<le> 90) \<or> (192 \<le> n \<and> n \<le> 214) \<or> (216 \<le> n \<and> n \<le> 222)
         then char_of (n + 32) else c)"

definition lower :: "string \<Rightarrow> string" where
  "lower s = map lower_char s"

text \<open>\<open>p.rfind(c)\<close> for a single character: the last index of \<open>c\<close>, or \<open>-1\<close>.\<close>

definition rfind :: "char \<Rightarrow> string \<Rightarrow> int" where
  "rfind c p =
     (case filter (\<lambda>i. p ! i = c) (rev [0..<length p]) of
        [] \<Rightarrow> - 1
      | i # _ \<Rightarrow> int i)"

text \<open>
  \<open>os.path.splitext\<close> (posixpath): the extension starts at the last dot, when that
  dot comes after the last slash and some character between them is not a dot.
\<close>

definition splitext :: "string \<Rightarrow> string \<times> string" where
  "splitext p =
     (let sepIndex = rfind CHR ''/'' p;
          dotIndex = rfind CHR ''.'' p
      in if dotIndex > sepIndex
            \<and> list_ex (\<lambda>c. c \<noteq> CHR ''.'')
                 (take (nat (dotIndex - sepIndex - 1)) (drop (nat (sepIndex + 1)) p))
         then (take (nat dotIndex) p, drop (nat dotIndex) p)
         else (p, []))"

section \<open>Collection operations\<close>

text \<open>\<open>users_collection.find_one({"username": u})\<close>.\<close>

definition find_one_user :: "user_doc list \<Rightarrow> string \<Rightarrow> user_doc option" where
  "find_one_user us u = find (\<lambda>d. username d = u) us"

text \<open>\<open>hashes_collection.find_one({"hash": h})\<close>.\<close>

definition find_one_hash :: "hash_doc list \<Rightarrow> string \<Rightarrow> hash_doc option" where
  "find_one_hash hs h = find (\<lambda>d. h_hash d = h) hs"

text \<open>\<open>hashes_collection.delete_one({"hash": h})\<close>: the first match goes, if any.\<close>

fun delete_one_hash :: "hash_doc list \<Rightarrow> string \<Rightarrow> hash_doc list" where
  "delete_one_hash [] h = []"
| "delete_one_hash (d # ds) h = (if h_hash d = h then ds else d # delete_one_hash ds h)"

text \<open>\<open>update_one({"username": u}, upd)\<close>: the first match is updated, if any.\<close>

fun update_one_user :: "user_doc list \<Rightarrow> string \<Rightarrow> (user_doc \<Rightarrow> user_doc) \<Rightarrow> user_doc list" where
  "update_one_user [] u f = []"
| "update_one_user (d # ds) u f =
     (if username d = u then f d # ds else d # update_one_user ds u f)"

text \<open>
  \<open>{"$addToSet": {"uploads": r}}\<close>: an absent array is created, an array that holds
  \<open>r\<close> stays as it is, otherwise \<open>r\<close> is appended.
\<close>

definition add_to_set :: "upload_record \<Rightarrow> user_doc \<Rightarrow> user_doc" where
  "add_to_set r d =
     (case uploads d of
        None \<Rightarrow> d\<lparr>uploads := Some [r]\<rparr>
      | Some l \<Rightarrow> if r \<in> set l then d else d\<lparr>uploads := Some (l @ [r])\<rparr>)"

text \<open>\<open>{"$set": {"uploads": l}}\<close>.\<close>

definition set_uploads :: "upload_record list \<Rightarrow> user_doc \<Rightarrow> user_doc" where
  "set_uploads l d = d\<lparr>uploads := Some l\<rparr>"

section \<open>The operations of the program\<close>

subsection \<open>\<open>authenticate_user\<close>\<close>

definition authenticate_user :: "lib \<Rightarrow> state \<Rightarrow> string \<Rightarrow> string \<Rightarrow> bool \<times> state" where
  "authenticate_user L s uname password =
     (if \<not> isalnum uname then (False, s)
      else
        let user = find_one_user (users s) uname;
            hashed_pw = sha256_hexdigest L password;
            s1 = record_call (HashPassword password) s
        in case user of
             Some u \<Rightarrow> (hashed_pw = password_hash u, s1)
           | None \<Rightarrow>
               (True,
                s1\<lparr>users := users s1 @
                   [\<lparr>username = uname, password_hash = hashed_pw, uploads = Some []\<rparr>]\<rparr>))"

subsection \<open>\<open>cleanup_invalid_images\<close>\<close>

text \<open>
  One round of the loop over \<open>user["uploads"]\<close>. The loop state is the list
  \<open>valid_uploads\<close> built so far and the program state. A response with status 200
  appends the record; any other status deletes the index document of the record's
  hash; an exception is caught by the bare \<open>except\<close> and the loop goes on.
\<close>

fun cleanup_loop ::
  "net \<Rightarrow> upload_record list \<Rightarrow> upload_record list \<times> state \<Rightarrow> upload_record list \<times> state" where
  "cleanup_loop N [] acc = acc"
| "cleanup_loop N (img # imgs) (valid_uploads, s) =
     (let s1 = record_call (RequestsGet (url img)) s
      in case requests_get N (url img) of
           StatusCode code \<Rightarrow>
             if code = 200 then cleanup_loop N imgs (valid_uploads @ [img], s1)
             else cleanup_loop N imgs
                    (valid_uploads,
                     s1\<lparr>image_hashes := delete_one_hash (image_hashes s1) (hash img)\<rparr>)
         | RequestException \<Rightarrow> cleanup_loop N imgs (valid_uploads, s1))"

definition cleanup_invalid_images :: "net \<Rightarrow> state \<Rightarrow> string \<Rightarrow> state" where
  "cleanup_invalid_images N s uname =
     (case find_one_user (users s) uname of
        None \<Rightarrow> s
      | Some user \<Rightarrow>
          (case uploads user of
             None \<Rightarrow> s
           | Some ups \<Rightarrow>
               (let (valid_uploads, s1) = cleanup_loop N ups ([], s)
                in s1\<lparr>users := update_one_user (users s1) uname (set_uploads valid_uploads)\<rparr>)))"

subsection \<open>\<open>compress_and_reformat\<close> and \<open>choose_storage_backend\<close>\<close>

text \<open>
  Every exception inside the function, the \<open>ValueError\<close> for a too large image
  included, is caught and turned into the result \<open>None\<close>.
\<close>

definition compress_and_reformat :: "lib \<Rightarrow> bytes \<Rightarrow> nat \<Rightarrow> bytes option" where
  "compress_and_reformat L image_data quality =
     (case image_open L image_data of
        None \<Rightarrow> None
      | Some img \<Rightarrow>
          if img_width img * img_height img > 10000000 then None
          else convert_save L img quality)"

definition choose_storage_backend :: "bytes \<Rightarrow> backend" where
  "choose_storage_backend compressed_data =
     (if length compressed_data \<le> 140 * 1024 then FirebaseStorage else CloudinaryStorage)"

subsection \<open>\<open>upload_image\<close>\<close>

text \<open>
  The strings the function returns, as a datatype: \<open>InvalidFormat\<close> is
  "Invalid file format. Please upload an image.", \<open>Duplicate u\<close> the
  "Duplicate image detected" message with the link \<open>u\<close>, \<open>ProcessingFailed\<close> is
  "Image processing failed", \<open>Success u\<close> the "Image uploaded successfully!" message
  with the link \<open>u\<close>, and \<open>UploadFailed e\<close> the "Upload failed" message with the
  text \<open>e\<close> of the exception.
\<close>

datatype outcome =
  InvalidFormat
  | Duplicate string
  | ProcessingFailed
  | Success string
  | UploadFailed string

definition accepted_extensions :: "string list" where
  "accepted_extensions = [''.jpg'', ''.jpeg'', ''.png'', ''.gif'', ''.bmp'']"

definition upload_image ::
  "lib \<Rightarrow> net \<Rightarrow> state \<Rightarrow> string \<Rightarrow> bytes \<Rightarrow> string \<Rightarrow> outcome \<times> state" where
  "upload_image L N s uname image_data file_name =
     (let img_hash = md5_hexdigest L image_data;
          s0 = record_call (CalculateHash image_data) s;
          file_ext = lower (snd (splitext file_name));
          final_name = img_hash @ ''__compressed.jpg''
      in if file_ext \<notin> set accepted_extensions then (InvalidFormat, s0)
         else
           case find_one_hash (image_hashes s0) img_hash of
             Some existing \<Rightarrow>
               (Duplicate (h_url existing),
                s0\<lparr>users := update_one_user (users s0) uname
                     (add_to_set \<lparr>filename = final_name, url = h_url existing, hash = img_hash\<rparr>)\<rparr>)
           | None \<Rightarrow>
               (let s1 = record_call (CompressAndReformat image_data) s0
                in case compress_and_reformat L image_data 85 of
                     None \<Rightarrow> (ProcessingFailed, s1)
                   | Some compressed_data \<Rightarrow>
                       (let storage_backend = choose_storage_backend compressed_data;
                            s2 = record_call (BackendSave storage_backend final_name compressed_data) s1
                        in case backend_save N storage_backend final_name compressed_data of
                             Inl e \<Rightarrow> (UploadFailed e, s2)
                           | Inr u \<Rightarrow>
                               (Success u,
                                s2\<lparr>image_hashes := image_hashes s2 @
                                      [\<lparr>h_hash = img_hash, h_filename = final_name,
                                        h_url = u, h_uploaded_by = uname\<rparr>],
                                   users := update_one_user (users s2) uname
                                      (add_to_set \<lparr>filename = final_name, url = u, hash = img_hash\<rparr>)\<rparr>))))"

text \<open>\<open>get_user_images\<close>: the ledger as a list of \<open>(filename, url)\<close> pairs.\<close>

definition get_user_images :: "state \<Rightarrow> string \<Rightarrow> (string \<times> string) list" where
  "get_user_images s uname =
     (case find_one_user (users s) uname of
        None \<Rightarrow> []
      | Some user \<Rightarrow>
          (case uploads user of
             None \<Rightarrow> []
           | Some ups \<Rightarrow> map (\<lambda>img. (filename img, url img)) ups))"

section \<open>Sample libraries, networks and states\<close>

text \<open>
  Small stand-ins for the libraries and the network, used to run the operations on
  concrete inputs. The sample decoder reads the first byte \<open>w\<close> of a buffer as an image
  of \<open>1000 * w\<close> by \<open>1000 * w\<close> pixels and fails on the empty buffer.
\<close>

definition sample_lib :: lib where
  "sample_lib =
     \<lparr>md5_hexdigest = (\<lambda>d. ''md5:'' @ map (\<lambda>w. char_of (unat w)) d),
      sha256_hexdigest = (\<lambda>p. ''sha256:'' @ p),
      image_open = (\<lambda>d. case d of
                           [] \<Rightarrow> None
                         | w # rest \<Rightarrow>
                             Some \<lparr>img_width = 1000 * unat w, img_height = 1000 * unat w,
                                   img_data = rest\<rparr>),
      convert_save = (\<lambda>img q. Some (img_data img))\<rparr>"

definition empty_state :: state where
  "empty_state = \<lparr>users = [], image_hashes = [], calls = []\<rparr>"

definition registered_state :: state where
  "registered_state =
     \<lparr>users = [\<lparr>username = ''alice'', password_hash = ''sha256:secret'', uploads = Some []\<rparr>],
      image_hashes = [], calls = []\<rparr>"

definition two_users_state :: state where
  "two_users_state =
     \<lparr>users = [\<lparr>username = ''alice'', password_hash = ''sha256:secret'', uploads = Some []\<rparr>,
               \<lparr>username = ''bob'', password_hash = ''sha256:hunter2'', uploads = Some []\<rparr>],
      image_hashes = [], calls = []\<rparr>"

text \<open>
  A state in which the ledger of \<open>alice\<close> holds one record and the index holds the
  document of that record's hash.
\<close>

definition indexed_state :: state where
  "indexed_state =
     \<lparr>users = [\<lparr>username = ''alice'', password_hash = ''sha256:secret'',
                uploads = Some [\<lparr>filename = ''h1__compressed.jpg'',
                                  url = ''https://storage.example/h1__compressed.jpg'',
                                  hash = ''h1''\<rparr>]\<rparr>],
      image_hashes = [\<lparr>h_hash = ''h1'', h_filename = ''h1__compressed.jpg'',
                       h_url = ''https://storage.example/h1__compressed.jpg'',
                       h_uploaded_by = ''alice''\<rparr>],
      calls = []\<rparr>"

text \<open>
  A state whose index already holds a document of the fingerprint of the buffer
  \<open>[5, 7]\<close>, which the sample decoder reads as an image of 5000 by 5000 pixels.
\<close>

definition oversized_indexed_state :: state where
  "oversized_indexed_state =
     \<lparr>users = [\<lparr>username = ''alice'', password_hash = ''sha256:secret'', uploads = Some []\<rparr>],
      image_hashes = [\<lparr>h_hash = md5_hexdigest sample_lib [5, 7],
                       h_filename = md5_hexdigest sample_lib [5, 7] @ ''__compressed.jpg'',
                       h_url = ''https://storage.example/big'',
                       h_uploaded_by = ''bob''\<rparr>],
      calls = []\<rparr>"

text \<open>The sample library with an encoder that raises on every image.\<close>

definition strict_lib :: lib where
  "strict_lib = sample_lib\<lparr>convert_save := (\<lambda>img q. None)\<rparr>"

text \<open>A network on which every save and every probe succeeds.\<close>

definition ok_net :: net where
  "ok_net = \<lparr>backend_save = (\<lambda>b n d. Inr (''https://storage.example/'' @ n)),
             requests_get = (\<lambda>u. StatusCode 200)\<rparr>"

text \<open>A network on which every save and every probe raises.\<close>

definition failing_net :: net where
  "failing_net = \<lparr>backend_save = (\<lambda>b n d. Inl ''connection reset''),
                  requests_get = (\<lambda>u. RequestException)\<rparr>"

text \<open>A network on which every probe is answered with status 404.\<close>

definition gone_net :: net where
  "gone_net = \<lparr>backend_save = (\<lambda>b n d. Inl ''connection reset''),
               requests_get = (\<lambda>u. StatusCode 404)\<rparr>"

text \<open>
  Two runs. In the first, \<open>alice\<close> uploads a buffer while the backend is down and then
  submits the same buffer again. In the second, \<open>alice\<close> uploads a buffer and \<open>bob\<close>
  then uploads the same bytes under another file name.
\<close>

definition retry_first :: "outcome \<times> state" where
  "retry_first =
     upload_image sample_lib failing_net registered_state ''alice'' [2, 7] ''cat.png''"

definition retry_second :: "outcome \<times> state" where
  "retry_second =
     upload_image sample_lib ok_net (snd retry_first) ''alice'' [2, 7] ''cat.png''"

definition share_first :: "outcome \<times> state" where
  "share_first =
     upload_image sample_lib ok_net two_users_state ''alice'' [2, 7] ''cat.png''"

definition share_second :: "outcome \<times> state" where
  "share_second =
     upload_image sample_lib ok_net (snd share_first) ''bob'' [2, 7] ''copy.JPG''"

section \<open>Classification of a probe\<close>

text \<open>
  The three ways the loop of \<open>cleanup_invalid_images\<close> can go for a record: the
  response has status 200, the response has another status, or \<open>requests.get\<close> raises.
\<close>

definition probe_ok :: "net \<Rightarrow> upload_record \<Rightarrow> bool" where
  "probe_ok N img = (requests_get N (url img) = StatusCode 200)"

definition probe_other_status :: "net \<Rightarrow> upload_record \<Rightarrow> bool" where
  "probe_other_status N img =
     (case requests_get N (url img) of
        StatusCode code \<Rightarrow> code \<noteq> 200
      | RequestException \<Rightarrow> False)"

definition probe_raises :: "net \<Rightarrow> upload_record \<Rightarrow> bool" where
  "probe_raises N img = (requests_get N (url img) = RequestException)"

section \<open>Library facts about collections\<close>

lemma find_append:
  "find P (xs @ ys) = (case find P xs of None \<Rightarrow> find P ys | Some x \<Rightarrow> Some x)"
  by (induction xs) auto

lemma find_one_user_snoc:
  "find_one_user us u = None \<Longrightarrow>
   find_one_user (us @ [d]) u = (if username d = u then Some d else None)"
  by (simp add: find_one_user_def find_append)

lemma find_one_hash_snoc:
  "find_one_hash hs h = None \<Longrightarrow>
   find_one_hash (hs @ [d]) h = (if h_hash d = h then Some d else None)"
  by (simp add: find_one_hash_def find_append)

lemma username_add_to_set [simp]: "username (add_to_set r d) = username d"
  by (simp add: add_to_set_def split: option.splits)

lemma username_set_uploads [simp]: "username (set_uploads l d) = username d"
  by (simp add: set_uploads_def)

lemma find_one_user_update_one:
  "(\<And>d. username (f d) = username d) \<Longrightarrow>
   find_one_user (update_one_user us u f) u = map_option f (find_one_user us u)"
  by (induction us) (auto simp: find_one_user_def)

lemma add_to_set_ledger:
  "uploads d = Some l \<Longrightarrow>
   add_to_set r d = d\<lparr>uploads := Some (if r \<in> set l then l else l @ [r])\<rparr>"
  by (auto simp: add_to_set_def)

text \<open>
  When the hashes of an index are pairwise different, \<open>delete_one\<close> removes every
  document of the hash, and a series of deletions is a filter.
\<close>

lemma delete_one_hash_distinct:
  "distinct (map h_hash hs) \<Longrightarrow> delete_one_hash hs h = filter (\<lambda>d. h_hash d \<noteq> h) hs"
proof (induction hs)
  case Nil
  show ?case by simp
next
  case (Cons d ds)
  show ?case
  proof (cases "h_hash d = h")
    case True
    with Cons.prems have "h \<notin> h_hash ` set ds" by simp
    then have "\<forall>x\<in>set ds. h_hash x \<noteq> h" by blast
    then have "filter (\<lambda>x. h_hash x \<noteq> h) ds = ds" by (rule filter_True)
    with True show ?thesis by simp
  next
    case False
    with Cons show ?thesis by simp
  qed
qed

lemma foldl_delete_one_hash_distinct:
  "distinct (map h_hash hs) \<Longrightarrow>
   foldl delete_one_hash hs ks = filter (\<lambda>d. h_hash d \<notin> set ks) hs"
proof (induction ks arbitrary: hs)
  case Nil
  show ?case by simp
next
  case (Cons k ks)
  have "distinct (map h_hash (filter (\<lambda>d. h_hash d \<noteq> k) hs))"
    using Cons.prems by (simp add: distinct_map_filter)
  with Cons show ?case
    by (simp add: delete_one_hash_distinct conj_commute)
qed

lemma find_one_hash_filter_out:
  "h \<in> set ks \<Longrightarrow> find_one_hash (filter (\<lambda>d. h_hash d \<notin> set ks) hs) h = None"
  by (auto simp: find_one_hash_def find_None_iff)

section \<open>Evaluation of the sample runs\<close>

lemmas run_defs = upload_image_def Let_def new_calls_def record_call_def
  compress_and_reformat_def choose_storage_backend_def find_one_hash_def find_one_user_def
  add_to_set_def set_uploads_def sample_lib_def ok_net_def failing_net_def gone_net_def
  registered_state_def two_users_state_def indexed_state_def empty_state_def
  accepted_extensions_def

lemma ext_cat_png: "lower (snd (splitext ''cat.png'')) = ''.png''"
  by code_simp

lemma ext_big_png: "lower (snd (splitext ''big.png'')) = ''.png''"
  by code_simp

lemma ext_copy_jpg: "lower (snd (splitext ''copy.JPG'')) = ''.jpg''"
  by code_simp

lemma ext_x_txt: "lower (snd (splitext ''x.txt'')) = ''.txt''"
  by code_simp

section \<open>Backend selection\<close>

text \<open>
  Claim C5. The backend chosen depends on the byte length of the normalised payload
  only: two payloads of the same length get the same backend, a payload of exactly
  140 KiB (143360 bytes) goes to Firebase, and one of 143361 bytes goes to Cloudinary.
\<close>

theorem choose_storage_backend_threshold:
  "(length a = length b \<longrightarrow> choose_storage_backend a = choose_storage_backend b)
   \<and> (length c = 143360 \<longrightarrow> choose_storage_backend c = FirebaseStorage)
   \<and> (length d = 143361 \<longrightarrow> choose_storage_backend d = CloudinaryStorage)"
  by (simp add: choose_storage_backend_def)

theorem choose_storage_backend_threshold_witness:
  "length (replicate 143360 (0::8 word)) = length (replicate 143360 (255::8 word))
   \<and> choose_storage_backend (replicate 143360 0) = choose_storage_backend (replicate 143360 255)
   \<and> length (replicate 143360 (0::8 word)) = 143360
   \<and> choose_storage_backend (replicate 143360 0) = FirebaseStorage
   \<and> length (replicate 143361 (0::8 word)) = 143361
   \<and> choose_storage_backend (replicate 143361 0) = CloudinaryStorage"
  using choose_storage_backend_threshold
    [of "replicate 143360 0" "replicate 143360 255" "replicate 143360 0" "replicate 143361 0"]
  by auto

section \<open>Authentication\<close>

text \<open>
  Claim C10. A username that is empty or contains a character that is not
  alphanumeric makes \<open>authenticate_user\<close> return \<open>False\<close> at once: the state is
  untouched (no account is created, no password is hashed), whatever the password
  and whether or not a document with that username exists.
\<close>

theorem authenticate_user_rejects_non_alnum:
  "uname = [] \<or> (\<exists>c\<in>set uname. \<not> isalnum_char c) \<Longrightarrow>
   authenticate_user L s uname password = (False, s)"
  by (auto simp: authenticate_user_def isalnum_def list_all_iff)

theorem authenticate_user_rejects_non_alnum_witness:
  "(\<exists>c\<in>set ''bob smith''. \<not> isalnum_char c)
   \<and> authenticate_user sample_lib empty_state ''bob smith'' ''pw'' = (False, empty_state)"
  using authenticate_user_rejects_non_alnum [of "''bob smith''" sample_lib empty_state "''pw''"]
  by (simp add: isalnum_char_def)

text \<open>
  Claim C8. When a document with the username exists and the hash of the given
  password differs from the stored hash, \<open>authenticate_user\<close> returns \<open>False\<close> as a
  value and both collections are as before.
\<close>

theorem authenticate_user_wrong_password:
  "find_one_user (users s) uname = Some u \<Longrightarrow>
   sha256_hexdigest L password \<noteq> password_hash u \<Longrightarrow>
   fst (authenticate_user L s uname password) = False
   \<and> users (snd (authenticate_user L s uname password)) = users s
   \<and> image_hashes (snd (authenticate_user L s uname password)) = image_hashes s"
  by (simp add: authenticate_user_def record_call_def Let_def)

theorem authenticate_user_wrong_password_witness:
  "find_one_user (users registered_state) ''alice''
     = Some \<lparr>username = ''alice'', password_hash = ''sha256:secret'', uploads = Some []\<rparr>
   \<and> sha256_hexdigest sample_lib ''guess'' \<noteq> ''sha256:secret''
   \<and> fst (authenticate_user sample_lib registered_state ''alice'' ''guess'') = False
   \<and> users (snd (authenticate_user sample_lib registered_state ''alice'' ''guess''))
       = users registered_state"
  using authenticate_user_wrong_password
    [of registered_state "''alice''"
        "\<lparr>username = ''alice'', password_hash = ''sha256:secret'', uploads = Some []\<rparr>"
        sample_lib "''guess''"]
  by (simp add: registered_state_def sample_lib_def find_one_user_def)

text \<open>
  Claim C7, as stated, fails: the username \<open>bob smith\<close> is in no document, yet
  \<open>authenticate_user\<close> returns \<open>False\<close> and creates no account, because of the
  \<open>isalnum\<close> guard at the head of the function.
\<close>

theorem authenticate_user_unknown_non_alnum_not_registered:
  "find_one_user (users empty_state) ''bob smith'' = None
   \<and> fst (authenticate_user sample_lib empty_state ''bob smith'' ''pw'') \<noteq> True
   \<and> find_one_user (users (snd (authenticate_user sample_lib empty_state ''bob smith'' ''pw'')))
        ''bob smith'' = None"
  by (simp add: authenticate_user_def empty_state_def find_one_user_def isalnum_def
      isalnum_char_def)

text \<open>
  Claim C7, amended. For every non-empty alphanumeric username that is in no
  document of the users collection, \<open>authenticate_user\<close> with any password returns
  \<open>True\<close> and appends a document with that username, the hash of the given password
  and an empty ledger; that document is the one \<open>find_one\<close> returns afterwards, and
  the index is as before.
\<close>

theorem authenticate_user_registers_alnum:
  "isalnum uname \<Longrightarrow> find_one_user (users s) uname = None \<Longrightarrow>
   fst (authenticate_user L s uname password) = True
   \<and> users (snd (authenticate_user L s uname password))
       = users s @ [\<lparr>username = uname, password_hash = sha256_hexdigest L password,
                     uploads = Some []\<rparr>]
   \<and> find_one_user (users (snd (authenticate_user L s uname password))) uname
       = Some \<lparr>username = uname, password_hash = sha256_hexdigest L password,
               uploads = Some []\<rparr>
   \<and> image_hashes (snd (authenticate_user L s uname password)) = image_hashes s"
  by (simp add: authenticate_user_def record_call_def Let_def find_one_user_snoc)

theorem authenticate_user_registers_alnum_witness:
  "isalnum ''bob'' \<and> find_one_user (users registered_state) ''bob'' = None
   \<and> fst (authenticate_user sample_lib registered_state ''bob'' ''pw'') = True
   \<and> users (snd (authenticate_user sample_lib registered_state ''bob'' ''pw''))
       = users registered_state
           @ [\<lparr>username = ''bob'', password_hash = ''sha256:pw'', uploads = Some []\<rparr>]"
  using authenticate_user_registers_alnum [of "''bob''" registered_state sample_lib "''pw''"]
  by (simp add: registered_state_def sample_lib_def find_one_user_def isalnum_def
      isalnum_char_def)

section \<open>Uploads\<close>

text \<open>
  When the two library calls of \<open>upload_image\<close> are made: the normaliser runs exactly
  when the extension is accepted and the index has no document of the fingerprint, and
  \<open>save\<close> is called exactly when the normaliser then returns a payload.
\<close>

lemma compress_called_iff:
  "CompressAndReformat d
     \<in> set (new_calls s (snd (upload_image L N s uname image_data file_name)))
   \<longleftrightarrow> d = image_data
       \<and> lower (snd (splitext file_name)) \<in> set accepted_extensions
       \<and> find_one_hash (image_hashes s) (md5_hexdigest L image_data) = None"
  by (auto simp: upload_image_def Let_def new_calls_def record_call_def
      split: option.splits sum.splits)

lemma save_called_iff:
  "BackendSave b n d
     \<in> set (new_calls s (snd (upload_image L N s uname image_data file_name)))
   \<longleftrightarrow> lower (snd (splitext file_name)) \<in> set accepted_extensions
       \<and> find_one_hash (image_hashes s) (md5_hexdigest L image_data) = None
       \<and> compress_and_reformat L image_data 85 = Some d
       \<and> b = choose_storage_backend d
       \<and> n = md5_hexdigest L image_data @ ''__compressed.jpg''"
  by (auto simp: upload_image_def Let_def new_calls_def record_call_def
      split: option.splits sum.splits)

lemma upload_image_indexed:
  assumes "upload_image L N s uname image_data file_name = (out, s')"
    and "out = Success w \<or> out = Duplicate w"
  shows "\<exists>e. find_one_hash (image_hashes s') (md5_hexdigest L image_data) = Some e
             \<and> h_url e = w"
  using assms
  by (auto simp: upload_image_def Let_def record_call_def find_one_hash_snoc
      split: if_splits option.splits sum.splits)

lemma upload_image_duplicate:
  assumes "find_one_hash (image_hashes s) (md5_hexdigest L image_data) = Some e"
    and "lower (snd (splitext file_name)) \<in> set accepted_extensions"
  shows "upload_image L N s uname image_data file_name
     = (Duplicate (h_url e),
        (record_call (CalculateHash image_data) s)
          \<lparr>users := update_one_user (users s) uname
             (add_to_set \<lparr>filename = md5_hexdigest L image_data @ ''__compressed.jpg'',
                          url = h_url e, hash = md5_hexdigest L image_data\<rparr>)\<rparr>)"
  using assms by (simp add: upload_image_def Let_def record_call_def)

text \<open>
  Claim C1. In every upload in which \<open>save\<close> is called and raises, \<open>upload_image\<close>
  reports the upload failure with the text of the exception, and the index and the
  users collection (hence every ledger) are exactly as before the call.
\<close>

theorem upload_image_save_raises:
  assumes "upload_image L N s uname image_data file_name = (out, s')"
    and "BackendSave b n d \<in> set (new_calls s s')"
    and "backend_save N b n d = Inl e"
  shows "out = UploadFailed e \<and> users s' = users s \<and> image_hashes s' = image_hashes s"
  using assms
  by (auto simp: upload_image_def Let_def new_calls_def record_call_def
      split: if_splits option.splits sum.splits)

theorem upload_image_save_raises_witness:
  "BackendSave FirebaseStorage (md5_hexdigest sample_lib [2, 7] @ ''__compressed.jpg'') [7]
     \<in> set (new_calls registered_state (snd retry_first))
   \<and> backend_save failing_net FirebaseStorage
        (md5_hexdigest sample_lib [2, 7] @ ''__compressed.jpg'') [7] = Inl ''connection reset''
   \<and> fst retry_first = UploadFailed ''connection reset''
   \<and> users (snd retry_first) = users registered_state
   \<and> image_hashes (snd retry_first) = image_hashes registered_state"
proof -
  have run: "upload_image sample_lib failing_net registered_state ''alice'' [2, 7] ''cat.png''
               = (fst retry_first, snd retry_first)"
    by (simp add: retry_first_def)
  have called:
    "BackendSave FirebaseStorage (md5_hexdigest sample_lib [2, 7] @ ''__compressed.jpg'') [7]
       \<in> set (new_calls registered_state (snd retry_first))"
    by (simp add: retry_first_def run_defs ext_cat_png)
  have raised: "backend_save failing_net FirebaseStorage
        (md5_hexdigest sample_lib [2, 7] @ ''__compressed.jpg'') [7] = Inl ''connection reset''"
    by (simp add: failing_net_def)
  from upload_image_save_raises [OF run called raised] called raised
  show ?thesis by simp
qed

text \<open>
  Claim C6, as stated, fails. The buffer \<open>[5, 7]\<close> decodes to 5000 by 5000 pixels and
  the empty buffer does not decode. Uploaded under the file name \<open>x.txt\<close>, each is
  rejected as an invalid format, not as a processing failure: the extension is tested
  before the normaliser runs. Uploaded as \<open>big.png\<close> into a state whose index holds
  the fingerprint of \<open>[5, 7]\<close>, the outcome is a duplicate and the ledger of the
  caller gains a record: the index is consulted before the normaliser runs.
\<close>

theorem upload_image_oversized_not_processing_failed:
  "image_open sample_lib [5, 7] = Some \<lparr>img_width = 5000, img_height = 5000, img_data = [7]\<rparr>
   \<and> (5000::nat) * 5000 > 10000000
   \<and> image_open sample_lib [] = None
   \<and> fst (upload_image sample_lib ok_net registered_state ''alice'' [5, 7] ''x.txt'')
       = InvalidFormat
   \<and> fst (upload_image sample_lib ok_net registered_state ''alice'' [] ''x.txt'')
       = InvalidFormat
   \<and> fst (upload_image sample_lib ok_net oversized_indexed_state ''alice'' [5, 7] ''big.png'')
       = Duplicate ''https://storage.example/big''
   \<and> find_one_user (users oversized_indexed_state) ''alice''
       = Some \<lparr>username = ''alice'', password_hash = ''sha256:secret'', uploads = Some []\<rparr>
   \<and> find_one_user
        (users (snd (upload_image sample_lib ok_net oversized_indexed_state ''alice'' [5, 7]
                       ''big.png''))) ''alice''
       = Some \<lparr>username = ''alice'', password_hash = ''sha256:secret'',
               uploads = Some [\<lparr>filename = md5_hexdigest sample_lib [5, 7] @ ''__compressed.jpg'',
                                 url = ''https://storage.example/big'',
                                 hash = md5_hexdigest sample_lib [5, 7]\<rparr>]\<rparr>"
  by (simp add: run_defs oversized_indexed_state_def ext_x_txt ext_big_png)

text \<open>
  Claim C6, amended. Take an upload whose file name passes the extension gate and
  whose fingerprint is not in the index. If the image fails to decode (\<open>Image.open\<close>
  raises, or the conversion and re-encoding of the opened image raises) or its pixel
  count exceeds 10,000,000, then the normaliser returns no payload, \<open>upload_image\<close>
  reports the processing failure, the index and the users collection (hence every
  ledger) are exactly as before, and \<open>save\<close> is not called.
\<close>

theorem upload_image_processing_failed:
  assumes "lower (snd (splitext file_name)) \<in> set accepted_extensions"
    and "find_one_hash (image_hashes s) (md5_hexdigest L image_data) = None"
    and "image_open L image_data = None
         \<or> (\<exists>img. image_open L image_data = Some img
                  \<and> (img_width img * img_height img > 10000000
                       \<or> convert_save L img 85 = None))"
  shows "compress_and_reformat L image_data 85 = None
     \<and> fst (upload_image L N s uname image_data file_name) = ProcessingFailed
     \<and> users (snd (upload_image L N s uname image_data file_name)) = users s
     \<and> image_hashes (snd (upload_image L N s uname image_data file_name)) = image_hashes s
     \<and> (\<forall>b n d. BackendSave b n d
            \<notin> set (new_calls s (snd (upload_image L N s uname image_data file_name))))"
proof -
  from assms(3) have failed: "compress_and_reformat L image_data 85 = None"
    by (auto simp: compress_and_reformat_def)
  with assms(1,2) show ?thesis
    by (simp add: upload_image_def Let_def new_calls_def record_call_def)
qed

theorem upload_image_processing_failed_witness:
  "lower (snd (splitext ''big.png'')) \<in> set accepted_extensions
   \<and> find_one_hash (image_hashes registered_state) (md5_hexdigest sample_lib [5, 7]) = None
   \<and> image_open sample_lib [5, 7] = Some \<lparr>img_width = 5000, img_height = 5000, img_data = [7]\<rparr>
   \<and> (5000::nat) * 5000 > 10000000
   \<and> fst (upload_image sample_lib ok_net registered_state ''alice'' [5, 7] ''big.png'')
       = ProcessingFailed
   \<and> users (snd (upload_image sample_lib ok_net registered_state ''alice'' [5, 7] ''big.png''))
       = users registered_state
   \<and> image_hashes
        (snd (upload_image sample_lib ok_net registered_state ''alice'' [5, 7] ''big.png''))
       = image_hashes registered_state
   \<and> find_one_hash (image_hashes registered_state) (md5_hexdigest sample_lib []) = None
   \<and> image_open sample_lib [] = None
   \<and> fst (upload_image sample_lib ok_net registered_state ''alice'' [] ''big.png'')
       = ProcessingFailed
   \<and> find_one_hash (image_hashes registered_state) (md5_hexdigest strict_lib [2, 7]) = None
   \<and> image_open strict_lib [2, 7] = Some \<lparr>img_width = 2000, img_height = 2000, img_data = [7]\<rparr>
   \<and> convert_save strict_lib \<lparr>img_width = 2000, img_height = 2000, img_data = [7]\<rparr> 85 = None
   \<and> fst (upload_image strict_lib ok_net registered_state ''alice'' [2, 7] ''big.png'')
       = ProcessingFailed"
proof -
  have ext: "lower (snd (splitext ''big.png'')) \<in> set accepted_extensions"
    by (simp add: ext_big_png accepted_extensions_def)
  have fresh: "find_one_hash (image_hashes registered_state) h = None" for h
    by (simp add: registered_state_def find_one_hash_def)
  have opened: "image_open sample_lib [5, 7]
                  = Some \<lparr>img_width = 5000, img_height = 5000, img_data = [7]\<rparr>"
    by (simp add: sample_lib_def)
  have big: "\<exists>img. image_open sample_lib [5, 7] = Some img
                  \<and> (img_width img * img_height img > 10000000
                       \<or> convert_save sample_lib img 85 = None)"
    by (simp add: sample_lib_def)
  have undecodable: "image_open sample_lib [] = None"
    by (simp add: sample_lib_def)
  have opened2: "image_open strict_lib [2, 7]
                   = Some \<lparr>img_width = 2000, img_height = 2000, img_data = [7]\<rparr>"
    by (simp add: strict_lib_def sample_lib_def)
  have raises: "convert_save strict_lib \<lparr>img_width = 2000, img_height = 2000, img_data = [7]\<rparr> 85
                  = None"
    by (simp add: strict_lib_def)
  have unencodable: "\<exists>img. image_open strict_lib [2, 7] = Some img
                  \<and> (img_width img * img_height img > 10000000
                       \<or> convert_save strict_lib img 85 = None)"
    by (simp add: strict_lib_def sample_lib_def)
  note r1 = upload_image_processing_failed
    [OF ext fresh disjI2 [OF big], of ok_net "''alice''"]
  note r2 = upload_image_processing_failed
    [OF ext fresh disjI1 [OF undecodable], of ok_net "''alice''"]
  note r3 = upload_image_processing_failed
    [OF ext fresh disjI2 [OF unencodable], of ok_net "''alice''"]
  from r1 r2 r3 ext fresh opened undecodable opened2 raises
  show ?thesis by simp
qed

text \<open>
  Claim C4, as stated, fails: for the file name \<open>x.txt\<close> the upload is rejected as an
  invalid format, but the fingerprint of the buffer has been computed by then;
  \<open>calculate_hash\<close> is the first statement of \<open>upload_image\<close> and the extension is
  tested after it.
\<close>

theorem upload_image_hashes_before_extension_check:
  "lower (snd (splitext ''x.txt'')) \<notin> set accepted_extensions
   \<and> fst (upload_image sample_lib ok_net registered_state ''alice'' [2, 7] ''x.txt'')
       = InvalidFormat
   \<and> new_calls registered_state
        (snd (upload_image sample_lib ok_net registered_state ''alice'' [2, 7] ''x.txt''))
       = [CalculateHash [2, 7]]"
  by (simp add: run_defs ext_x_txt)

text \<open>
  Claim C4, amended. When the lower-cased extension of the original file name is
  not one of \<open>.jpg\<close>, \<open>.jpeg\<close>, \<open>.png\<close>, \<open>.gif\<close>, \<open>.bmp\<close>, \<open>upload_image\<close> reports an
  invalid format whatever the bytes are, before any normalisation occurs and with no
  side effects: the normaliser is not called, \<open>save\<close> is not called, and the index and
  the users collection are exactly as before. The only call made is the computation
  of the fingerprint, which comes before the test of the extension.
\<close>

theorem upload_image_extension_gate:
  assumes "lower (snd (splitext file_name)) \<notin> set accepted_extensions"
  shows "fst (upload_image L N s uname image_data file_name) = InvalidFormat
     \<and> new_calls s (snd (upload_image L N s uname image_data file_name))
         = [CalculateHash image_data]
     \<and> (\<forall>d. CompressAndReformat d
            \<notin> set (new_calls s (snd (upload_image L N s uname image_data file_name))))
     \<and> (\<forall>b n d. BackendSave b n d
            \<notin> set (new_calls s (snd (upload_image L N s uname image_data file_name))))
     \<and> users (snd (upload_image L N s uname image_data file_name)) = users s
     \<and> image_hashes (snd (upload_image L N s uname image_data file_name)) = image_hashes s"
  using assms by (simp add: upload_image_def Let_def new_calls_def record_call_def)

theorem upload_image_extension_gate_witness:
  "lower (snd (splitext ''x.txt'')) \<notin> set accepted_extensions
   \<and> fst (upload_image sample_lib ok_net indexed_state ''alice'' [2, 7] ''x.txt'')
       = InvalidFormat
   \<and> users (snd (upload_image sample_lib ok_net indexed_state ''alice'' [2, 7] ''x.txt''))
       = users indexed_state
   \<and> image_hashes (snd (upload_image sample_lib ok_net indexed_state ''alice'' [2, 7] ''x.txt''))
       = image_hashes indexed_state"
proof -
  have ext: "lower (snd (splitext ''x.txt'')) \<notin> set accepted_extensions"
    by (simp add: ext_x_txt accepted_extensions_def)
  from upload_image_extension_gate [OF ext, of sample_lib ok_net indexed_state "''alice''" "[2, 7]"]
    ext
  show ?thesis by simp
qed

text \<open>
  Claim C2, as stated, fails: \<open>alice\<close> uploads a buffer while the backend is down, so
  \<open>save\<close> is called and raises and nothing is indexed; she uploads the same bytes
  again, and \<open>save\<close> is called a second time for that content. The second call does
  not find the fingerprint in the index and its outcome is a success, not a duplicate.
\<close>

theorem upload_image_retry_saves_twice:
  "BackendSave FirebaseStorage (md5_hexdigest sample_lib [2, 7] @ ''__compressed.jpg'') [7]
     \<in> set (new_calls registered_state (snd retry_first))
   \<and> BackendSave FirebaseStorage (md5_hexdigest sample_lib [2, 7] @ ''__compressed.jpg'') [7]
     \<in> set (new_calls (snd retry_first) (snd retry_second))
   \<and> find_one_hash (image_hashes (snd retry_first)) (md5_hexdigest sample_lib [2, 7]) = None
   \<and> fst retry_second
       = Success (''https://storage.example/'' @ md5_hexdigest sample_lib [2, 7]
                    @ ''__compressed.jpg'')"
  by (simp add: retry_first_def retry_second_def run_defs ext_cat_png)

text \<open>
  Claim C2, amended. Take two uploads of the same bytes, one after the other, by the
  same or by different users, where the first returned a success or a duplicate
  outcome with the link \<open>w\<close>. Then the second call makes no call to the normaliser and
  none to \<open>save\<close>, and leaves the index as it is. If its file name passes the
  extension gate, it returns the duplicate outcome with the link \<open>w\<close> and applies
  \<open>$addToSet\<close> of the record \<open>(final_name, w, fingerprint)\<close> to the caller's document:
  a ledger that holds the record stays as it is, otherwise the record is appended.
\<close>

theorem upload_image_dedup:
  assumes first: "upload_image L N1 s u1 image_data f1 = (o1, s1)"
    and stored: "o1 = Success w \<or> o1 = Duplicate w"
    and second: "upload_image L N2 s1 u2 image_data f2 = (o2, s2)"
  shows "(\<forall>b n d. BackendSave b n d \<notin> set (new_calls s1 s2))
     \<and> (\<forall>d. CompressAndReformat d \<notin> set (new_calls s1 s2))
     \<and> image_hashes s2 = image_hashes s1
     \<and> (lower (snd (splitext f2)) \<in> set accepted_extensions \<longrightarrow>
          o2 = Duplicate w
          \<and> users s2 = update_one_user (users s1) u2
               (add_to_set \<lparr>filename = md5_hexdigest L image_data @ ''__compressed.jpg'',
                            url = w, hash = md5_hexdigest L image_data\<rparr>)
          \<and> (\<forall>d l. find_one_user (users s1) u2 = Some d \<and> uploads d = Some l \<longrightarrow>
                find_one_user (users s2) u2
                  = Some (d\<lparr>uploads := Some
                       (if \<lparr>filename = md5_hexdigest L image_data @ ''__compressed.jpg'',
                             url = w, hash = md5_hexdigest L image_data\<rparr> \<in> set l
                        then l
                        else l @ [\<lparr>filename = md5_hexdigest L image_data @ ''__compressed.jpg'',
                                   url = w, hash = md5_hexdigest L image_data\<rparr>])\<rparr>)))"
proof -
  from upload_image_indexed [OF first stored]
  obtain e where e: "find_one_hash (image_hashes s1) (md5_hexdigest L image_data) = Some e"
    and w: "h_url e = w" by blast
  show ?thesis
  proof (cases "lower (snd (splitext f2)) \<in> set accepted_extensions")
    case False
    with second show ?thesis
      by (auto simp: upload_image_def Let_def new_calls_def record_call_def)
  next
    case True
    from upload_image_duplicate [OF e True, of N2 u2] second w
    have o2: "o2 = Duplicate w"
      and s2: "s2 = (record_call (CalculateHash image_data) s1)
          \<lparr>users := update_one_user (users s1) u2
             (add_to_set \<lparr>filename = md5_hexdigest L image_data @ ''__compressed.jpg'',
                          url = w, hash = md5_hexdigest L image_data\<rparr>)\<rparr>"
      by simp_all
    show ?thesis
      using True o2
      by (auto simp: s2 new_calls_def record_call_def find_one_user_update_one
          add_to_set_ledger)
  qed
qed

theorem upload_image_dedup_witness:
  "fst share_first
     = Success (''https://storage.example/'' @ md5_hexdigest sample_lib [2, 7]
                  @ ''__compressed.jpg'')
   \<and> lower (snd (splitext ''copy.JPG'')) \<in> set accepted_extensions
   \<and> find_one_user (users (snd share_first)) ''bob''
       = Some \<lparr>username = ''bob'', password_hash = ''sha256:hunter2'', uploads = Some []\<rparr>
   \<and> fst share_second
       = Duplicate (''https://storage.example/'' @ md5_hexdigest sample_lib [2, 7]
                      @ ''__compressed.jpg'')
   \<and> (\<forall>b n d. BackendSave b n d \<notin> set (new_calls (snd share_first) (snd share_second)))
   \<and> image_hashes (snd share_second) = image_hashes (snd share_first)
   \<and> find_one_user (users (snd share_second)) ''bob''
       = Some \<lparr>username = ''bob'', password_hash = ''sha256:hunter2'',
               uploads = Some [\<lparr>filename = md5_hexdigest sample_lib [2, 7] @ ''__compressed.jpg'',
                                 url = ''https://storage.example/''
                                       @ md5_hexdigest sample_lib [2, 7] @ ''__compressed.jpg'',
                                 hash = md5_hexdigest sample_lib [2, 7]\<rparr>]\<rparr>"
proof -
  have run1: "upload_image sample_lib ok_net two_users_state ''alice'' [2, 7] ''cat.png''
                = (fst share_first, snd share_first)"
    by (simp add: share_first_def)
  have out1: "fst share_first
     = Success (''https://storage.example/'' @ md5_hexdigest sample_lib [2, 7]
                  @ ''__compressed.jpg'')"
    by (simp add: share_first_def run_defs ext_cat_png)
  have run2: "upload_image sample_lib ok_net (snd share_first) ''bob'' [2, 7] ''copy.JPG''
                = (fst share_second, snd share_second)"
    by (simp add: share_second_def)
  have ext: "lower (snd (splitext ''copy.JPG'')) \<in> set accepted_extensions"
    by (simp add: ext_copy_jpg accepted_extensions_def)
  have bob: "find_one_user (users (snd share_first)) ''bob''
       = Some \<lparr>username = ''bob'', password_hash = ''sha256:hunter2'', uploads = Some []\<rparr>"
    by (simp add: share_first_def run_defs ext_cat_png)
  note dedup = upload_image_dedup [OF run1 disjI1 [OF out1] run2]
  from dedup have no_save:
    "\<forall>b n d. BackendSave b n d \<notin> set (new_calls (snd share_first) (snd share_second))"
    by blast
  from dedup have same_index: "image_hashes (snd share_second) = image_hashes (snd share_first)"
    by blast
  from dedup ext have out2: "fst share_second
       = Duplicate (''https://storage.example/'' @ md5_hexdigest sample_lib [2, 7]
                      @ ''__compressed.jpg'')"
    by blast
  from dedup ext have "\<forall>d l. find_one_user (users (snd share_first)) ''bob'' = Some d
                          \<and> uploads d = Some l \<longrightarrow>
      find_one_user (users (snd share_second)) ''bob''
        = Some (d\<lparr>uploads := Some
            (if \<lparr>filename = md5_hexdigest sample_lib [2, 7] @ ''__compressed.jpg'',
                  url = ''https://storage.example/'' @ md5_hexdigest sample_lib [2, 7]
                        @ ''__compressed.jpg'',
                  hash = md5_hexdigest sample_lib [2, 7]\<rparr> \<in> set l
             then l
             else l @ [\<lparr>filename = md5_hexdigest sample_lib [2, 7] @ ''__compressed.jpg'',
                        url = ''https://storage.example/'' @ md5_hexdigest sample_lib [2, 7]
                              @ ''__compressed.jpg'',
                        hash = md5_hexdigest sample_lib [2, 7]\<rparr>])\<rparr>)"
    by blast
  from this [rule_format,
      of "\<lparr>username = ''bob'', password_hash = ''sha256:hunter2'', uploads = Some []\<rparr>" "[]"]
    bob
  have ledger: "find_one_user (users (snd share_second)) ''bob''
       = Some \<lparr>username = ''bob'', password_hash = ''sha256:hunter2'',
               uploads = Some [\<lparr>filename = md5_hexdigest sample_lib [2, 7] @ ''__compressed.jpg'',
                                 url = ''https://storage.example/''
                                       @ md5_hexdigest sample_lib [2, 7] @ ''__compressed.jpg'',
                                 hash = md5_hexdigest sample_lib [2, 7]\<rparr>]\<rparr>"
    by simp
  from out1 ext bob out2 no_save same_index ledger
  show ?thesis by blast
qed

section \<open>Reconciliation of a ledger\<close>

text \<open>
  The loop in closed form: the records kept are those answered with status 200, in
  ledger order; one \<open>delete_one\<close> is issued for each record answered with another
  status, in ledger order; a record whose probe raises adds nothing to either.
\<close>

lemma cleanup_loop_result:
  "cleanup_loop N imgs (valid_uploads, s) =
     (valid_uploads @ filter (probe_ok N) imgs,
      s\<lparr>calls := calls s @ map (\<lambda>img. RequestsGet (url img)) imgs,
        image_hashes := foldl delete_one_hash (image_hashes s)
                          (map hash (filter (probe_other_status N) imgs))\<rparr>)"
proof (induction imgs arbitrary: valid_uploads s)
  case Nil
  show ?case by simp
next
  case (Cons img imgs)
  show ?case
    by (cases "requests_get N (url img)")
       (simp_all add: Cons.IH probe_ok_def probe_other_status_def record_call_def)
qed

lemma cleanup_result:
  assumes "find_one_user (users s) uname = Some user" and "uploads user = Some ups"
  shows "cleanup_invalid_images N s uname =
     s\<lparr>calls := calls s @ map (\<lambda>img. RequestsGet (url img)) ups,
       image_hashes := foldl delete_one_hash (image_hashes s)
                         (map hash (filter (probe_other_status N) ups)),
       users := update_one_user (users s) uname (set_uploads (filter (probe_ok N) ups))\<rparr>"
  using assms by (simp add: cleanup_invalid_images_def cleanup_loop_result)

text \<open>
  What one run does, for a user whose document holds a ledger. The ledger becomes the
  list of the records whose probe was answered with status 200, in their order. The
  index is the old one after one \<open>delete_one\<close> by hash for each record answered with
  another status: when the hashes of the index are pairwise different, no document of
  such a record's hash is left. The branch for a probe that raises issues no
  \<open>delete_one\<close>: when no record gets a status other than 200, the index is as before.
\<close>

lemma cleanup_invalid_images_closed_form:
  assumes "find_one_user (users s) uname = Some user" and "uploads user = Some ups"
  shows "users (cleanup_invalid_images N s uname)
           = update_one_user (users s) uname (set_uploads (filter (probe_ok N) ups))
     \<and> find_one_user (users (cleanup_invalid_images N s uname)) uname
           = Some (user\<lparr>uploads := Some (filter (probe_ok N) ups)\<rparr>)
     \<and> image_hashes (cleanup_invalid_images N s uname)
           = foldl delete_one_hash (image_hashes s)
               (map hash (filter (probe_other_status N) ups))
     \<and> (\<forall>r\<in>set ups. probe_other_status N r \<longrightarrow> distinct (map h_hash (image_hashes s)) \<longrightarrow>
           find_one_hash (image_hashes (cleanup_invalid_images N s uname)) (hash r) = None)
     \<and> ((\<forall>r\<in>set ups. probe_ok N r \<or> probe_raises N r) \<longrightarrow>
           image_hashes (cleanup_invalid_images N s uname) = image_hashes s)"
proof -
  have none_other: "filter (probe_other_status N) ups = []"
    if "\<forall>r\<in>set ups. probe_ok N r \<or> probe_raises N r"
    using that
    by (auto simp: filter_empty_conv probe_ok_def probe_raises_def probe_other_status_def)
  have gone: "find_one_hash (foldl delete_one_hash (image_hashes s)
                   (map hash (filter (probe_other_status N) ups))) (hash r) = None"
    if "r \<in> set ups" "probe_other_status N r" "distinct (map h_hash (image_hashes s))" for r
  proof -
    have "hash r \<in> set (map hash (filter (probe_other_status N) ups))"
      using that by simp
    then show ?thesis
      unfolding foldl_delete_one_hash_distinct [OF that(3)]
      by (rule find_one_hash_filter_out)
  qed
  show ?thesis
    using assms
    by (simp add: cleanup_result find_one_user_update_one set_uploads_def none_other gone)
qed

text \<open>
  The sibling branch at work: with every probe answered by status 404, the record of
  \<open>alice\<close> is dropped and the index document of its hash is deleted.
\<close>

lemma cleanup_other_status_deletes_index_entry:
  "probe_other_status gone_net
     \<lparr>filename = ''h1__compressed.jpg'', url = ''https://storage.example/h1__compressed.jpg'',
      hash = ''h1''\<rparr>
   \<and> find_one_user (users (cleanup_invalid_images gone_net indexed_state ''alice'')) ''alice''
       = Some \<lparr>username = ''alice'', password_hash = ''sha256:secret'', uploads = Some []\<rparr>
   \<and> find_one_hash (image_hashes (cleanup_invalid_images gone_net indexed_state ''alice''))
        ''h1'' = None"
  by (simp add: cleanup_invalid_images_def probe_other_status_def run_defs)

text \<open>
  Claim C3 asks that a record whose probe fails with a network error be dropped from
  the ledger and that the index document of its fingerprint be deleted, as for a
  record answered with a status other than success. The program does not do the
  second: the ledger of \<open>alice\<close> holds one record, the index holds the document of its
  hash, and the probe of its link raises. After the cleanup the record is gone from
  the ledger, but the index document is still there. The bare \<open>except\<close> branch of the
  loop only continues; the \<open>delete_one\<close> of the sibling \<open>else\<close> branch is missing
  from it.
\<close>

theorem cleanup_probe_raises_keeps_index_entry:
  "probe_raises failing_net
     \<lparr>filename = ''h1__compressed.jpg'', url = ''https://storage.example/h1__compressed.jpg'',
      hash = ''h1''\<rparr>
   \<and> find_one_user (users (cleanup_invalid_images failing_net indexed_state ''alice'')) ''alice''
       = Some \<lparr>username = ''alice'', password_hash = ''sha256:secret'', uploads = Some []\<rparr>
   \<and> find_one_hash (image_hashes (cleanup_invalid_images failing_net indexed_state ''alice''))
        ''h1''
       = Some \<lparr>h_hash = ''h1'', h_filename = ''h1__compressed.jpg'',
               h_url = ''https://storage.example/h1__compressed.jpg'',
               h_uploaded_by = ''alice''\<rparr>"
  by (simp add: cleanup_invalid_images_def probe_raises_def run_defs)

text \<open>
  Claim C9. With the answers of the probes unchanged and nothing done in between, a
  second run of \<open>cleanup_invalid_images\<close> for the same user leaves the users
  collection, and so the ledger, exactly as the first run left it; the index is not
  changed by the second run either.
\<close>

theorem cleanup_invalid_images_idempotent:
  "users (cleanup_invalid_images N (cleanup_invalid_images N s uname) uname)
     = users (cleanup_invalid_images N s uname)
   \<and> image_hashes (cleanup_invalid_images N (cleanup_invalid_images N s uname) uname)
     = image_hashes (cleanup_invalid_images N s uname)"
proof (cases "find_one_user (users s) uname")
  case None
  then show ?thesis by (simp add: cleanup_invalid_images_def)
next
  case (Some user)
  show ?thesis
  proof (cases "uploads user")
    case None
    with Some show ?thesis by (simp add: cleanup_invalid_images_def)
  next
    case (Some ups)
    let ?kept = "filter (probe_ok N) ups"
    let ?s1 = "cleanup_invalid_images N s uname"
    have first: "?s1 = s\<lparr>calls := calls s @ map (\<lambda>img. RequestsGet (url img)) ups,
       image_hashes := foldl delete_one_hash (image_hashes s)
                         (map hash (filter (probe_other_status N) ups)),
       users := update_one_user (users s) uname (set_uploads ?kept)\<rparr>"
      using \<open>find_one_user (users s) uname = Some user\<close> Some by (rule cleanup_result)
    have found: "find_one_user (users ?s1) uname = Some (set_uploads ?kept user)"
      using \<open>find_one_user (users s) uname = Some user\<close>
      by (simp add: first find_one_user_update_one)
    have ledger: "uploads (set_uploads ?kept user) = Some ?kept"
      by (simp add: set_uploads_def)
    have no_other: "filter (\<lambda>x. probe_ok N x \<and> probe_other_status N x) ups = []"
      by (auto simp: filter_empty_conv probe_ok_def probe_other_status_def)
    have again: "update_one_user (update_one_user us uname (set_uploads ?kept)) uname
                   (set_uploads ?kept) = update_one_user us uname (set_uploads ?kept)" for us
      by (induction us) (auto simp: set_uploads_def)
    show ?thesis
      by (simp add: cleanup_result [OF found ledger] no_other) (simp add: first again)
  qed
qed

end
